theory Spec2Isabelle
  imports Main
begin

section \<open>The change stream (src/types/index.ts)\<close>

text \<open>
  A row of the \<open>posts\<close> table as the \<open>Post\<close> interface declares it. The identifier is an
  integer (the table's serial key); the two dates arrive as text in the JSON of the stream.
  The field \<open>id\<close> is called \<open>post_id\<close> here, \<open>id\<close> being the identity function of HOL.
\<close>

record post =
  post_id :: int
  title :: string
  content :: string
  author :: string
  created_at :: string
  updated_at :: string

text \<open>
  The payload of a \<open>DebeziumChangeEvent\<close>. The consumers read \<open>op\<close>, \<open>before\<close> and
  \<open>after\<close> only; the origin metadata (\<open>source\<close>, \<open>transaction\<close>) that no handler looks at is
  whatever the record's extension holds. The operation code is a string: the interface
  lists four codes, and the consumers' \<open>switch\<close> has a branch for any other.
\<close>

record event_payload =
  before :: "post option"
  after :: "post option"
  op :: string
  ts_ms :: int

record DebeziumChangeEvent =
  payload :: event_payload

text \<open>A JavaScript \<open>Error\<close>: its message and, when the client set one, \<open>meta.statusCode\<close>.\<close>

datatype error = Error (message: string) (statusCode: "nat option")

section \<open>Numbers and JSON text\<close>

text \<open>
  \<open>Number.prototype.toString\<close> on an integer: the decimal digits, with a minus sign for a
  negative one. It is what a template literal and \<open>JSON.stringify\<close> print for an id.
\<close>

definition digit :: "nat \<Rightarrow> char" where
  "digit n = ''0123456789'' ! n"

fun digits :: "nat \<Rightarrow> string" where
  "digits n = (if n < 10 then [digit n] else digits (n div 10) @ [digit (n mod 10)])"

definition toString :: "int \<Rightarrow> string" where
  "toString i = (if i < 0 then CHR ''-'' # digits (nat (- i)) else digits (nat i))"

text \<open>
  \<open>JSON.stringify\<close> on a string (QuoteJSONString): the double quote and the backslash are
  escaped, the control characters below 0x20 are written with their short escape or as
  \<open>\u00XX\<close>, every other character stands for itself.
\<close>

definition hexdigit :: "nat \<Rightarrow> char" where
  "hexdigit n = ''0123456789abcdef'' ! n"

definition quoteJSONChar :: "char \<Rightarrow> string" where
  "quoteJSONChar c =
     (if c = CHR 0x08 then [CHR 0x5C, CHR ''b'']
      else if c = CHR 0x09 then [CHR 0x5C, CHR ''t'']
      else if c = CHR 0x0A then [CHR 0x5C, CHR ''n'']
      else if c = CHR 0x0C then [CHR 0x5C, CHR ''f'']
      else if c = CHR 0x0D then [CHR 0x5C, CHR ''r'']
      else if c = CHR 0x22 then [CHR 0x5C, CHR 0x22]
      else if c = CHR 0x5C then [CHR 0x5C, CHR 0x5C]
      else if (of_char c :: nat) < 32
        then [CHR 0x5C, CHR ''u'', CHR ''0'', CHR ''0'',
              hexdigit ((of_char c :: nat) div 16), hexdigit ((of_char c :: nat) mod 16)]
      else [c])"

definition quoteJSONString :: "string \<Rightarrow> string" where
  "quoteJSONString s = CHR 0x22 # concat (map quoteJSONChar s) @ [CHR 0x22]"

text \<open>
  \<open>JSON.stringify\<close> on the object literal both consumers build from a row: the six
  properties in the order of the literal.
\<close>

definition JSON_stringify :: "post \<Rightarrow> string" where
  "JSON_stringify d =
     ''{'' @ quoteJSONString ''id'' @ '':'' @ toString (post_id d) @ '','' @
     quoteJSONString ''title'' @ '':'' @ quoteJSONString (title d) @ '','' @
     quoteJSONString ''content'' @ '':'' @ quoteJSONString (content d) @ '','' @
     quoteJSONString ''author'' @ '':'' @ quoteJSONString (author d) @ '','' @
     quoteJSONString ''created_at'' @ '':'' @ quoteJSONString (created_at d) @ '','' @
     quoteJSONString ''updated_at'' @ '':'' @ quoteJSONString (updated_at d) @ ''}''"

section \<open>The search downstream (MockElasticsearch)\<close>

text \<open>
  The mock keeps one map of documents per index name. A document is the object the
  consumer sends: the six fields of a row.
\<close>

type_synonym document = post

record MockElasticsearch =
  documents :: "string \<rightharpoonup> (string \<rightharpoonup> document)"

record es_response =
  r_index :: string
  r_id :: string
  result :: string

definition not_found :: error where
  "not_found = Error ''Document not found'' (Some 404)"

text \<open>
  \<open>index\<close>: creates the index map when it is missing, stores the document under the id,
  and only then asks whether the id is in the map to choose the \<open>result\<close> text.
\<close>

definition es_index :: "string \<Rightarrow> string \<Rightarrow> document \<Rightarrow> MockElasticsearch
    \<Rightarrow> es_response \<times> MockElasticsearch" where
  "es_index idx i doc m =
     (let docs1 = (if documents m idx = None then (documents m)(idx \<mapsto> Map.empty)
                   else documents m);
          indexDocs = (case docs1 idx of Some d \<Rightarrow> d | None \<Rightarrow> Map.empty);
          indexDocs' = indexDocs(i \<mapsto> doc)
      in (\<lparr>r_index = idx, r_id = i,
           result = (if indexDocs' i \<noteq> None then ''updated'' else ''created'')\<rparr>,
          m\<lparr>documents := docs1(idx \<mapsto> indexDocs')\<rparr>))"

text \<open>\<open>delete\<close>: throws a 404 error when the index or the id is missing.\<close>

definition es_delete :: "string \<Rightarrow> string \<Rightarrow> MockElasticsearch
    \<Rightarrow> (error + es_response) \<times> MockElasticsearch" where
  "es_delete idx i m =
     (case documents m idx of
        None \<Rightarrow> (Inl not_found, m)
      | Some indexDocs \<Rightarrow>
          if indexDocs i = None then (Inl not_found, m)
          else (Inr \<lparr>r_index = idx, r_id = i, result = ''deleted''\<rparr>,
                m\<lparr>documents := (documents m)(idx \<mapsto> indexDocs(i := None))\<rparr>))"

text \<open>
  The client a consumer holds. Each method is a spy (\<open>vi.fn\<close>): it records the call, and
  the call either is rejected by the environment (connection refused, a 5xx answer; in the
  tests \<open>mockRejectedValueOnce\<close>) or runs the mock. What the environment rejects while one
  record is applied is the \<open>es_env\<close>.
\<close>

datatype es_call = IndexCall string string document | DeleteCall string string

record es_client =
  es :: MockElasticsearch
  es_calls :: "es_call list"

record es_env =
  index_rejects :: "error option"
  delete_rejects :: "error option"

definition client_index :: "es_env \<Rightarrow> string \<Rightarrow> string \<Rightarrow> document \<Rightarrow> es_client
    \<Rightarrow> (error + es_response) \<times> es_client" where
  "client_index env idx i doc c =
     (let c1 = c\<lparr>es_calls := es_calls c @ [IndexCall idx i doc]\<rparr> in
      case index_rejects env of
        Some e \<Rightarrow> (Inl e, c1)
      | None \<Rightarrow> (case es_index idx i doc (es c1) of (r, m) \<Rightarrow> (Inr r, c1\<lparr>es := m\<rparr>)))"

definition client_delete :: "es_env \<Rightarrow> string \<Rightarrow> string \<Rightarrow> es_client
    \<Rightarrow> (error + es_response) \<times> es_client" where
  "client_delete env idx i c =
     (let c1 = c\<lparr>es_calls := es_calls c @ [DeleteCall idx i]\<rparr> in
      case delete_rejects env of
        Some e \<Rightarrow> (Inl e, c1)
      | None \<Rightarrow> (case es_delete idx i (es c1) of (r, m) \<Rightarrow> (r, c1\<lparr>es := m\<rparr>)))"

section \<open>The search indexer consumer (second file held in src/api/server.ts)\<close>

text \<open>
  \<open>handleCreateOrUpdate\<close> of the search indexer: returns at once without \<open>after\<close>;
  otherwise sends the document, and the \<open>catch\<close> around the call logs whatever it throws.
\<close>

definition search_handleCreateOrUpdate :: "es_env \<Rightarrow> DebeziumChangeEvent \<Rightarrow> es_client
    \<Rightarrow> (error + unit) \<times> es_client" where
  "search_handleCreateOrUpdate env event c =
     (case after (payload event) of
        None \<Rightarrow> (Inr (), c)
      | Some p \<Rightarrow>
          (case client_index env ''posts'' (toString (post_id p))
                  \<lparr>post_id = post_id p, title = title p, content = content p,
                   author = author p, created_at = created_at p,
                   updated_at = updated_at p\<rparr> c of
             (Inr r, c1) \<Rightarrow> (Inr (), c1)
           | (Inl e, c1) \<Rightarrow> (Inr (), c1)))"

text \<open>
  \<open>handleDelete\<close> of the search indexer: returns at once without \<open>before\<close>; the
  \<open>catch\<close> logs an error unless its status is 404, and rethrows nothing.
\<close>

definition search_handleDelete :: "es_env \<Rightarrow> DebeziumChangeEvent \<Rightarrow> es_client
    \<Rightarrow> (error + unit) \<times> es_client" where
  "search_handleDelete env event c =
     (case before (payload event) of
        None \<Rightarrow> (Inr (), c)
      | Some p \<Rightarrow>
          (case client_delete env ''posts'' (toString (post_id p)) c of
             (Inr r, c1) \<Rightarrow> (Inr (), c1)
           | (Inl e, c1) \<Rightarrow>
               if statusCode e \<noteq> Some 404 then (Inr (), c1) else (Inr (), c1)))"

text \<open>The \<open>switch (operation)\<close> of the indexer's \<open>eachMessage\<close>: what it applies to a record.\<close>

definition search_apply :: "es_env \<Rightarrow> DebeziumChangeEvent \<Rightarrow> es_client
    \<Rightarrow> (error + unit) \<times> es_client" where
  "search_apply env changeEvent c =
     (let operation = op (payload changeEvent) in
      if operation = ''c'' \<or> operation = ''r'' \<or> operation = ''u''
        then search_handleCreateOrUpdate env changeEvent c
      else if operation = ''d'' then search_handleDelete env changeEvent c
      else (Inr (), c))"

text \<open>
  \<open>eachMessage\<close>: an empty message is dropped; the value is decoded with \<open>JSON.parse\<close>
  (a parameter here, it is the language's own parser) inside the \<open>try\<close> that also holds
  the switch, and the \<open>catch\<close> logs and goes on.
\<close>

definition search_eachMessage :: "(string \<Rightarrow> error + DebeziumChangeEvent) \<Rightarrow> es_env
    \<Rightarrow> string option \<Rightarrow> es_client \<Rightarrow> (error + unit) \<times> es_client" where
  "search_eachMessage JSON_parse env v c =
     (case v of
        None \<Rightarrow> (Inr (), c)
      | Some text \<Rightarrow>
          (case JSON_parse text of
             Inl e \<Rightarrow> (Inr (), c)
           | Inr changeEvent \<Rightarrow>
               (case search_apply env changeEvent c of
                  (Inl e, c1) \<Rightarrow> (Inr (), c1)
                | (Inr u, c1) \<Rightarrow> (Inr (), c1))))"

section \<open>The cache downstream (MockRedis)\<close>

text \<open>
  The mock's three private maps: the values, the expiry deadline of a key in milliseconds,
  and the sorted sets, each a map from member to score.
\<close>

record MockRedis =
  data :: "string \<rightharpoonup> string"
  expiry :: "string \<rightharpoonup> int"
  sortedSets :: "string \<rightharpoonup> (string \<rightharpoonup> int)"

text \<open>The mock's methods. \<open>now\<close> is what \<open>Date.now()\<close> returns when the method runs.\<close>

definition setex :: "int \<Rightarrow> string \<Rightarrow> int \<Rightarrow> string \<Rightarrow> MockRedis \<Rightarrow> string \<times> MockRedis" where
  "setex now key seconds val m =
     (''OK'', m\<lparr>data := (data m)(key \<mapsto> val),
               expiry := (expiry m)(key \<mapsto> now + seconds * 1000)\<rparr>)"

fun del :: "string list \<Rightarrow> MockRedis \<Rightarrow> int \<times> MockRedis" where
  "del [] m = (0, m)"
| "del (key # keys) m =
     (let n = (if data m key \<noteq> None then 1 else 0);
          m1 = m\<lparr>data := (data m)(key := None),
                 expiry := (expiry m)(key := None),
                 sortedSets := (sortedSets m)(key := None)\<rparr>
      in case del keys m1 of (k, m2) \<Rightarrow> (n + k, m2))"

definition zadd :: "string \<Rightarrow> int \<Rightarrow> string \<Rightarrow> MockRedis \<Rightarrow> int \<times> MockRedis" where
  "zadd key score member m =
     (let sets1 = (if sortedSets m key = None then (sortedSets m)(key \<mapsto> Map.empty)
                   else sortedSets m);
          set0 = (case sets1 key of Some s \<Rightarrow> s | None \<Rightarrow> Map.empty);
          isNew = (set0 member = None)
      in (if isNew then 1 else 0,
          m\<lparr>sortedSets := sets1(key \<mapsto> set0(member \<mapsto> score))\<rparr>))"

definition zrem :: "string \<Rightarrow> string \<Rightarrow> MockRedis \<Rightarrow> int \<times> MockRedis" where
  "zrem key member m =
     (case sortedSets m key of
        None \<Rightarrow> (0, m)
      | Some set0 \<Rightarrow>
          (if set0 member \<noteq> None then 1 else 0,
           m\<lparr>sortedSets := (sortedSets m)(key \<mapsto> set0(member := None))\<rparr>))"

definition expire :: "int \<Rightarrow> string \<Rightarrow> int \<Rightarrow> MockRedis \<Rightarrow> int \<times> MockRedis" where
  "expire now key seconds m =
     (if data m key = None \<and> sortedSets m key = None then (0, m)
      else (1, m\<lparr>expiry := (expiry m)(key \<mapsto> now + seconds * 1000)\<rparr>))"

text \<open>
  The client the cache updater holds: the mock and the calls its spies recorded. While one
  record is applied the environment fixes, for each command, whether the call is rejected
  and what the clock reads when it runs.
\<close>

datatype redis_command = SETEX | DEL | ZADD | ZREM | EXPIRE

datatype redis_call =
    SetexCall string int string
  | DelCall "string list"
  | ZaddCall string int string
  | ZremCall string string
  | ExpireCall string int

record redis_client =
  redis :: MockRedis
  calls :: "redis_call list"

record redis_env =
  rejects :: "redis_command \<Rightarrow> error option"
  clock :: "redis_command \<Rightarrow> int"

definition invoke :: "error option \<Rightarrow> redis_call \<Rightarrow> (MockRedis \<Rightarrow> 'a \<times> MockRedis)
    \<Rightarrow> redis_client \<Rightarrow> (error + 'a) \<times> redis_client" where
  "invoke rejected call method c =
     (let c1 = c\<lparr>calls := calls c @ [call]\<rparr> in
      case rejected of
        Some e \<Rightarrow> (Inl e, c1)
      | None \<Rightarrow> (case method (redis c1) of (r, m) \<Rightarrow> (Inr r, c1\<lparr>redis := m\<rparr>)))"

definition client_setex :: "redis_env \<Rightarrow> string \<Rightarrow> int \<Rightarrow> string \<Rightarrow> redis_client
    \<Rightarrow> (error + string) \<times> redis_client" where
  "client_setex env key seconds val =
     invoke (rejects env SETEX) (SetexCall key seconds val) (setex (clock env SETEX) key seconds val)"

definition client_del :: "redis_env \<Rightarrow> string list \<Rightarrow> redis_client
    \<Rightarrow> (error + int) \<times> redis_client" where
  "client_del env keys = invoke (rejects env DEL) (DelCall keys) (del keys)"

definition client_zadd :: "redis_env \<Rightarrow> string \<Rightarrow> int \<Rightarrow> string \<Rightarrow> redis_client
    \<Rightarrow> (error + int) \<times> redis_client" where
  "client_zadd env key score member =
     invoke (rejects env ZADD) (ZaddCall key score member) (zadd key score member)"

definition client_zrem :: "redis_env \<Rightarrow> string \<Rightarrow> string \<Rightarrow> redis_client
    \<Rightarrow> (error + int) \<times> redis_client" where
  "client_zrem env key member = invoke (rejects env ZREM) (ZremCall key member) (zrem key member)"

definition client_expire :: "redis_env \<Rightarrow> string \<Rightarrow> int \<Rightarrow> redis_client
    \<Rightarrow> (error + int) \<times> redis_client" where
  "client_expire env key seconds =
     invoke (rejects env EXPIRE) (ExpireCall key seconds) (expire (clock env EXPIRE) key seconds)"

section \<open>The cache updater consumer (src/consumers/cache-updater.ts)\<close>

definition CACHE_TTL :: int where
  "CACHE_TTL = 300"

text \<open>
  \<open>updateAuthorPostsList\<close>: adds the id to the author's sorted set with the clock as score,
  then sets the set's time to live; its own \<open>catch\<close> logs a failure of either call.
\<close>

definition updateAuthorPostsList :: "redis_env \<Rightarrow> string \<Rightarrow> int \<Rightarrow> redis_client
    \<Rightarrow> (error + unit) \<times> redis_client" where
  "updateAuthorPostsList env a postId c =
     (let key = ''author:'' @ a @ '':posts'' in
      case client_zadd env key (clock env ZADD) (toString postId) c of
        (Inl e, c1) \<Rightarrow> (Inr (), c1)
      | (Inr n, c1) \<Rightarrow>
          (case client_expire env key CACHE_TTL c1 of
             (Inl e, c2) \<Rightarrow> (Inr (), c2)
           | (Inr k, c2) \<Rightarrow> (Inr (), c2)))"

definition removeFromAuthorPostsList :: "redis_env \<Rightarrow> string \<Rightarrow> int \<Rightarrow> redis_client
    \<Rightarrow> (error + unit) \<times> redis_client" where
  "removeFromAuthorPostsList env a postId c =
     (let key = ''author:'' @ a @ '':posts'' in
      case client_zrem env key (toString postId) c of
        (Inl e, c1) \<Rightarrow> (Inr (), c1)
      | (Inr n, c1) \<Rightarrow> (Inr (), c1))"

text \<open>
  \<open>handleCreateOrUpdate\<close> of the cache updater: returns at once without \<open>after\<close>;
  otherwise stores the row's JSON under its key with the time to live and updates the
  author's list, and the \<open>catch\<close> around both logs whatever is thrown.
\<close>

definition cache_handleCreateOrUpdate :: "redis_env \<Rightarrow> DebeziumChangeEvent \<Rightarrow> redis_client
    \<Rightarrow> (error + unit) \<times> redis_client" where
  "cache_handleCreateOrUpdate env event c =
     (case after (payload event) of
        None \<Rightarrow> (Inr (), c)
      | Some p \<Rightarrow>
          (let cacheKey = ''post:'' @ toString (post_id p);
               cacheValue = JSON_stringify
                  \<lparr>post_id = post_id p, title = title p, content = content p,
                   author = author p, created_at = created_at p,
                   updated_at = updated_at p\<rparr>
           in case client_setex env cacheKey CACHE_TTL cacheValue c of
                (Inl e, c1) \<Rightarrow> (Inr (), c1)
              | (Inr ok, c1) \<Rightarrow>
                  (case updateAuthorPostsList env (author p) (post_id p) c1 of
                     (Inl e, c2) \<Rightarrow> (Inr (), c2)
                   | (Inr u, c2) \<Rightarrow> (Inr (), c2))))"

text \<open>
  \<open>handleDelete\<close> of the cache updater: returns at once without \<open>before\<close>; otherwise
  deletes the row's key and removes the id from the author's list, inside a \<open>catch\<close> that
  logs.
\<close>

definition cache_handleDelete :: "redis_env \<Rightarrow> DebeziumChangeEvent \<Rightarrow> redis_client
    \<Rightarrow> (error + unit) \<times> redis_client" where
  "cache_handleDelete env event c =
     (case before (payload event) of
        None \<Rightarrow> (Inr (), c)
      | Some p \<Rightarrow>
          (let cacheKey = ''post:'' @ toString (post_id p)
           in case client_del env [cacheKey] c of
                (Inl e, c1) \<Rightarrow> (Inr (), c1)
              | (Inr n, c1) \<Rightarrow>
                  (case removeFromAuthorPostsList env (author p) (post_id p) c1 of
                     (Inl e, c2) \<Rightarrow> (Inr (), c2)
                   | (Inr u, c2) \<Rightarrow> (Inr (), c2))))"

text \<open>The \<open>switch (operation)\<close> of the updater's \<open>eachMessage\<close>.\<close>

definition cache_apply :: "redis_env \<Rightarrow> DebeziumChangeEvent \<Rightarrow> redis_client
    \<Rightarrow> (error + unit) \<times> redis_client" where
  "cache_apply env changeEvent c =
     (let operation = op (payload changeEvent) in
      if operation = ''c'' \<or> operation = ''r'' \<or> operation = ''u''
        then cache_handleCreateOrUpdate env changeEvent c
      else if operation = ''d'' then cache_handleDelete env changeEvent c
      else (Inr (), c))"

definition cache_eachMessage :: "(string \<Rightarrow> error + DebeziumChangeEvent) \<Rightarrow> redis_env
    \<Rightarrow> string option \<Rightarrow> redis_client \<Rightarrow> (error + unit) \<times> redis_client" where
  "cache_eachMessage JSON_parse env v c =
     (case v of
        None \<Rightarrow> (Inr (), c)
      | Some text \<Rightarrow>
          (case JSON_parse text of
             Inl e \<Rightarrow> (Inr (), c)
           | Inr changeEvent \<Rightarrow>
               (case cache_apply env changeEvent c of
                  (Inl e, c1) \<Rightarrow> (Inr (), c1)
                | (Inr u, c1) \<Rightarrow> (Inr (), c1))))"

text \<open>
  Records applied one after the other, each under its own environment: the consumer's run
  loop handing the messages of a partition to \<open>eachMessage\<close> in order.
\<close>

fun cache_run :: "(redis_env \<times> DebeziumChangeEvent) list \<Rightarrow> redis_client \<Rightarrow> redis_client" where
  "cache_run [] c = c"
| "cache_run ((env, ev) # rest) c = cache_run rest (snd (cache_apply env ev c))"

text \<open>The members of the sorted set under a key; none when there is no such set.\<close>

definition members :: "MockRedis \<Rightarrow> string \<Rightarrow> string set" where
  "members m key = (case sortedSets m key of None \<Rightarrow> {} | Some s \<Rightarrow> dom s)"

section \<open>The handlers as the unit tests hold them\<close>

text \<open>
  The unit tests (search_indexer.test.ts, cache-updater.test.ts) carry their own copies of
  the handlers ("extracted from the actual consumer") and assert on those. The copies of the upsert handlers have no \<open>catch\<close>, and
  the copy of the indexer's checks the required fields before it sends the document.
\<close>

definition test_search_handleCreateOrUpdate :: "es_env \<Rightarrow> DebeziumChangeEvent \<Rightarrow> es_client
    \<Rightarrow> (error + unit) \<times> es_client" where
  "test_search_handleCreateOrUpdate env event c =
     (case after (payload event) of
        None \<Rightarrow> (Inr (), c)
      | Some p \<Rightarrow>
          if post_id p = 0 \<or> title p = [] \<or> content p = [] \<or> author p = []
          then (Inr (), c)
          else (case client_index env ''posts'' (toString (post_id p))
                  \<lparr>post_id = post_id p, title = title p, content = content p,
                   author = author p, created_at = created_at p,
                   updated_at = updated_at p\<rparr> c of
             (Inr r, c1) \<Rightarrow> (Inr (), c1)
           | (Inl e, c1) \<Rightarrow> (Inl e, c1)))"

definition test_cache_handleCreateOrUpdate :: "redis_env \<Rightarrow> DebeziumChangeEvent \<Rightarrow> redis_client
    \<Rightarrow> (error + unit) \<times> redis_client" where
  "test_cache_handleCreateOrUpdate env event c =
     (case after (payload event) of
        None \<Rightarrow> (Inr (), c)
      | Some p \<Rightarrow>
          (let cacheKey = ''post:'' @ toString (post_id p);
               cacheValue = JSON_stringify
                  \<lparr>post_id = post_id p, title = title p, content = content p,
                   author = author p, created_at = created_at p,
                   updated_at = updated_at p\<rparr>
           in case client_setex env cacheKey CACHE_TTL cacheValue c of
                (Inl e, c1) \<Rightarrow> (Inl e, c1)
              | (Inr ok, c1) \<Rightarrow>
                  (let key = ''author:'' @ author p @ '':posts'' in
                   case client_zadd env key (clock env ZADD) (toString (post_id p)) c1 of
                     (Inl e, c2) \<Rightarrow> (Inl e, c2)
                   | (Inr n, c2) \<Rightarrow>
                       (case client_expire env key CACHE_TTL c2 of
                          (Inl e, c3) \<Rightarrow> (Inl e, c3)
                        | (Inr k, c3) \<Rightarrow> (Inr (), c3)))))"

section \<open>Concrete stores, environments and records\<close>

text \<open>
  \<open>createMockRedis\<close> and \<open>createMockElasticsearch\<close>: a fresh client, nothing stored and no
  call recorded.
\<close>

definition createMockRedis :: redis_client where
  "createMockRedis =
     \<lparr>redis = \<lparr>data = Map.empty, expiry = Map.empty, sortedSets = Map.empty\<rparr>, calls = []\<rparr>"

definition createMockElasticsearch :: es_client where
  "createMockElasticsearch = \<lparr>es = \<lparr>documents = Map.empty\<rparr>, es_calls = []\<rparr>"

text \<open>\<open>createMockDebeziumEvent\<close> of the test helpers, with the fields the consumers read.\<close>

definition createMockDebeziumEvent :: "string \<Rightarrow> post option \<Rightarrow> post option \<Rightarrow> DebeziumChangeEvent" where
  "createMockDebeziumEvent operation b a =
     \<lparr>payload = \<lparr>before = b, after = a, op = operation, ts_ms = 0\<rparr>\<rparr>"

text \<open>A downstream that accepts every command, the clock reading \<open>t\<close> all along.\<close>

definition redis_up :: "int \<Rightarrow> redis_env" where
  "redis_up t = \<lparr>rejects = (\<lambda>command. None), clock = (\<lambda>command. t)\<rparr>"

definition es_up :: es_env where
  "es_up = \<lparr>index_rejects = None, delete_rejects = None\<rparr>"

text \<open>A downstream that refuses the write, as the two error tests arrange it.\<close>

definition redis_refused :: redis_env where
  "redis_refused =
     \<lparr>rejects = (\<lambda>command. Some (Error ''Connection refused'' None)), clock = (\<lambda>command. 0)\<rparr>"

definition es_refused :: es_env where
  "es_refused = \<lparr>index_rejects = Some (Error ''Network error'' None),
                  delete_rejects = Some (Error ''Network error'' None)\<rparr>"

definition post1 :: post where
  "post1 = \<lparr>post_id = 1, title = ''A'', content = ''B'', author = ''C'',
            created_at = ''2024-01-01T00:00:00.000Z'', updated_at = ''2024-01-01T00:00:00.000Z''\<rparr>"

definition post2 :: post where
  "post2 = \<lparr>post_id = 2, title = ''A2'', content = ''B2'', author = ''C'',
            created_at = ''2024-01-02T00:00:00.000Z'', updated_at = ''2024-01-02T00:00:00.000Z''\<rparr>"

text \<open>A row whose title is the empty string.\<close>

definition untitled :: post where
  "untitled = \<lparr>post_id = 7, title = [], content = ''B'', author = ''C'',
               created_at = ''2024-01-01T00:00:00.000Z'', updated_at = ''2024-01-01T00:00:00.000Z''\<rparr>"

section \<open>Facts about the numbers and the keys\<close>

declare digits.simps [simp del]

lemma digit_inj: "n < 10 \<Longrightarrow> m < 10 \<Longrightarrow> digit n = digit m \<Longrightarrow> n = m"
proof -
  assume a: "n < 10" "m < 10" "digit n = digit m"
  have d: "distinct ''0123456789''" by simp
  have l: "length ''0123456789'' = 10" by simp
  show ?thesis using a nth_eq_iff_index_eq[OF d, of n m] unfolding digit_def l by simp
qed

lemma digit_not_minus: "n < 10 \<Longrightarrow> digit n \<noteq> CHR ''-''"
proof -
  assume "n < 10"
  then have "''0123456789'' ! n \<in> set ''0123456789''" by (intro nth_mem) simp
  then show ?thesis unfolding digit_def by auto
qed

lemma digits_nonempty: "digits n \<noteq> []"
  by (subst digits.simps) simp

lemma digits_length_ge2: "10 \<le> n \<Longrightarrow> 2 \<le> length (digits n)"
proof -
  assume "10 \<le> n"
  then have "digits n = digits (n div 10) @ [digit (n mod 10)]"
    by (subst digits.simps) simp
  moreover have "1 \<le> length (digits (n div 10))"
    using digits_nonempty[of "n div 10"] by (cases "digits (n div 10)") auto
  ultimately show ?thesis by simp
qed

lemma digits_inj: "digits n = digits m \<Longrightarrow> n = m"
proof (induction n arbitrary: m rule: digits.induct)
  case (1 n)
  show ?case
  proof (cases "n < 10")
    case True
    then have n1: "digits n = [digit n]" by (subst digits.simps) simp
    show ?thesis
    proof (cases "m < 10")
      case m: True
      then have "digits m = [digit m]" by (subst digits.simps) simp
      with n1 "1.prems" have "digit n = digit m" by simp
      then show ?thesis using digit_inj True m by blast
    next
      case False
      then have "2 \<le> length (digits m)" using digits_length_ge2 by simp
      with n1 "1.prems" show ?thesis by simp
    qed
  next
    case False
    then have n2: "digits n = digits (n div 10) @ [digit (n mod 10)]"
      by (subst digits.simps) simp
    show ?thesis
    proof (cases "m < 10")
      case True
      then have "digits m = [digit m]" by (subst digits.simps) simp
      moreover have "2 \<le> length (digits n)" using False digits_length_ge2 by simp
      ultimately show ?thesis using "1.prems" by simp
    next
      case m: False
      then have "digits m = digits (m div 10) @ [digit (m mod 10)]"
        by (subst digits.simps) simp
      with n2 "1.prems"
      have e: "digits (n div 10) = digits (m div 10)" "digit (n mod 10) = digit (m mod 10)"
        by simp_all
      have "n div 10 = m div 10" using "1.IH"[OF False e(1)] .
      moreover have "n mod 10 = m mod 10" using digit_inj[OF _ _ e(2)] by simp
      ultimately show ?thesis by (metis div_mult_mod_eq)
    qed
  qed
qed

lemma digits_hd_not_minus: "hd (digits n) \<noteq> CHR ''-''"
proof (induction n rule: digits.induct)
  case (1 n)
  show ?case
  proof (cases "n < 10")
    case True
    then have "digits n = [digit n]" by (subst digits.simps) simp
    then show ?thesis using digit_not_minus[OF True] by simp
  next
    case False
    then have "digits n = digits (n div 10) @ [digit (n mod 10)]"
      by (subst digits.simps) simp
    then show ?thesis using "1.IH"[OF False] digits_nonempty[of "n div 10"] by simp
  qed
qed

text \<open>Two ids print the same text only when they are the same id.\<close>

lemma toString_inj: "toString i = toString j \<Longrightarrow> i = j"
proof -
  assume a: "toString i = toString j"
  have neg: "\<And>x y. CHR ''-'' # digits x \<noteq> digits y"
    using digits_hd_not_minus by (metis list.sel(1))
  show ?thesis
  proof (cases "i < 0"; cases "j < 0")
    assume "i < 0" "j < 0"
    with a have "digits (nat (- i)) = digits (nat (- j))" by (simp add: toString_def)
    then have "nat (- i) = nat (- j)" by (rule digits_inj)
    with \<open>i < 0\<close> \<open>j < 0\<close> show ?thesis by simp
  next
    assume "i < 0" "\<not> j < 0"
    with a neg show ?thesis by (simp add: toString_def)
  next
    assume "\<not> i < 0" "j < 0"
    with a neg[of "nat (- j)" "nat i"] show ?thesis by (simp add: toString_def)
  next
    assume "\<not> i < 0" "\<not> j < 0"
    with a have "digits (nat i) = digits (nat j)" by (simp add: toString_def)
    then have "nat i = nat j" by (rule digits_inj)
    with \<open>\<not> i < 0\<close> \<open>\<not> j < 0\<close> show ?thesis by simp
  qed
qed

lemma toString_small: "toString 1 = ''1''" "toString 2 = ''2''" "toString 7 = ''7''"
  by (simp_all add: toString_def digit_def digits.simps)

section \<open>Facts about the clients\<close>

lemma invoke_Some: "invoke (Some e) call f c = (Inl e, c\<lparr>calls := calls c @ [call]\<rparr>)"
  by (simp add: invoke_def)

lemma invoke_None:
  "invoke None call f c =
     (Inr (fst (f (redis c))), c\<lparr>calls := calls c @ [call], redis := snd (f (redis c))\<rparr>)"
  by (simp add: invoke_def Let_def split: prod.splits)

lemmas redis_client_defs =
  client_setex_def client_del_def client_zadd_def client_zrem_def client_expire_def

lemmas redis_mock_defs = setex_def zadd_def zrem_def expire_def

lemmas cache_handler_defs =
  cache_handleCreateOrUpdate_def cache_handleDelete_def
  updateAuthorPostsList_def removeFromAuthorPostsList_def

lemmas search_defs =
  search_handleCreateOrUpdate_def search_handleDelete_def
  client_index_def client_delete_def es_index_def es_delete_def

section \<open>The reported result of an index call\<close>

text \<open>
  C10. Whatever the index, the id and the document, and whether or not the id was in the
  index before, \<open>MockElasticsearch.index\<close> answers with \<open>result\<close> equal to "updated": the
  membership test is made after the document has been stored.
\<close>

theorem index_result_always_updated:
  "result (fst (es_index idx i doc m)) = ''updated''"
  by (simp add: es_index_def Let_def)

section \<open>Snapshot and create\<close>

text \<open>
  C6. A record with operation "r" (snapshot) and the same record with operation "c"
  (create) are applied alike by both consumers: same outcome, same downstream, same calls.
\<close>

theorem snapshot_applied_as_create:
  "search_apply senv (ev\<lparr>payload := (payload ev)\<lparr>op := ''r''\<rparr>\<rparr>) sc
     = search_apply senv (ev\<lparr>payload := (payload ev)\<lparr>op := ''c''\<rparr>\<rparr>) sc
   \<and> cache_apply cenv (ev\<lparr>payload := (payload ev)\<lparr>op := ''r''\<rparr>\<rparr>) cc
     = cache_apply cenv (ev\<lparr>payload := (payload ev)\<lparr>op := ''c''\<rparr>\<rparr>) cc"
  by (simp add: search_apply_def cache_apply_def
      search_handleCreateOrUpdate_def cache_handleCreateOrUpdate_def)

section \<open>Records without a new row state\<close>

text \<open>
  C3. A create, update or snapshot record whose \<open>after\<close> is null is skipped by both
  consumers: the apply returns normally, and the client is as it was, no call recorded and
  nothing stored.
\<close>

theorem after_null_is_skipped:
  assumes "op (payload ev) \<in> {''c'', ''u'', ''r''}"
    and "after (payload ev) = None"
  shows "search_apply senv ev sc = (Inr (), sc) \<and> cache_apply cenv ev cc = (Inr (), cc)"
  using assms
  by (auto simp add: search_apply_def cache_apply_def
      search_handleCreateOrUpdate_def cache_handleCreateOrUpdate_def)

theorem after_null_is_skipped_witness:
  "search_apply es_refused (createMockDebeziumEvent ''c'' None None) createMockElasticsearch
     = (Inr (), createMockElasticsearch)
   \<and> cache_apply redis_refused (createMockDebeziumEvent ''c'' None None) createMockRedis
     = (Inr (), createMockRedis)"
  using after_null_is_skipped [of "createMockDebeziumEvent ''c'' None None"
      es_refused createMockElasticsearch redis_refused createMockRedis]
  by (simp add: createMockDebeziumEvent_def)

section \<open>Facts about the handlers\<close>

lemma post_copy:
  "\<lparr>post_id = post_id p, title = title p, content = content p, author = author p,
    created_at = created_at p, updated_at = updated_at p\<rparr> = (p :: post)"
  by (cases p) simp

lemma JSON_stringify_post1:
  "JSON_stringify post1 =
        ''{'' @ CHR 0x22 # ''id'' @ CHR 0x22 # '':1,'' @ CHR 0x22 # ''title'' @
        CHR 0x22 # '':'' @ CHR 0x22 # ''A'' @ CHR 0x22 # '','' @ CHR 0x22 # ''content'' @
        CHR 0x22 # '':'' @ CHR 0x22 # ''B'' @ CHR 0x22 # '','' @ CHR 0x22 # ''author'' @
        CHR 0x22 # '':'' @ CHR 0x22 # ''C'' @ CHR 0x22 # '','' @ CHR 0x22 # ''created_at'' @
        CHR 0x22 # '':'' @ CHR 0x22 # ''2024-01-01T00:00:00.000Z'' @ CHR 0x22 # '','' @
        CHR 0x22 # ''updated_at'' @ CHR 0x22 # '':'' @
        CHR 0x22 # ''2024-01-01T00:00:00.000Z'' @ CHR 0x22 # ''}''"
  by (simp add: JSON_stringify_def quoteJSONString_def quoteJSONChar_def post1_def toString_small)

text \<open>An upsert that the downstream accepts: the three calls it makes and the store it leaves.\<close>

lemma upsert_accepted:
  assumes "after (payload ev) = Some p" and "rejects env = (\<lambda>command. None)"
  shows "cache_handleCreateOrUpdate env ev c =
     (Inr (), c\<lparr>calls := calls c @
          [SetexCall (''post:'' @ toString (post_id p)) 300 (JSON_stringify p),
           ZaddCall (''author:'' @ author p @ '':posts'') (clock env ZADD) (toString (post_id p)),
           ExpireCall (''author:'' @ author p @ '':posts'') 300],
        redis := snd (expire (clock env EXPIRE) (''author:'' @ author p @ '':posts'') 300
                  (snd (zadd (''author:'' @ author p @ '':posts'') (clock env ZADD)
                     (toString (post_id p))
                     (snd (setex (clock env SETEX) (''post:'' @ toString (post_id p)) 300
                        (JSON_stringify p) (redis c))))))\<rparr>)"
  using assms
  by (simp add: cache_handler_defs redis_client_defs invoke_None Let_def CACHE_TTL_def post_copy)

text \<open>
  Applying an upsert again: the store is the one a single application under the second
  environment leaves, provided the downstream rejects the same commands both times.
\<close>

lemma upsert_last_wins:
  assumes "rejects env2 = rejects env1"
  shows "redis (snd (cache_handleCreateOrUpdate env2 ev
                  (snd (cache_handleCreateOrUpdate env1 ev c))))
       = redis (snd (cache_handleCreateOrUpdate env2 ev c))"
proof (cases "after (payload ev)")
  case None
  then show ?thesis by (simp add: cache_handleCreateOrUpdate_def)
next
  case (Some p)
  show ?thesis
    using assms Some
    by (cases "rejects env1 SETEX"; cases "rejects env1 ZADD"; cases "rejects env1 EXPIRE")
       (simp_all add: cache_handler_defs redis_client_defs invoke_Some invoke_None
          redis_mock_defs Let_def fun_eq_iff)
qed

lemma delete_twice:
  assumes "rejects env2 = rejects env1"
  shows "redis (snd (cache_handleDelete env2 ev (snd (cache_handleDelete env1 ev c))))
       = redis (snd (cache_handleDelete env2 ev c))"
proof (cases "before (payload ev)")
  case None
  then show ?thesis by (simp add: cache_handleDelete_def)
next
  case (Some p)
  show ?thesis
    using assms Some
    by (cases "rejects env1 DEL"; cases "rejects env1 ZREM";
        cases "sortedSets (redis c) (''author:'' @ author p @ '':posts'')")
       (simp_all add: cache_handler_defs redis_client_defs invoke_Some invoke_None
          redis_mock_defs Let_def fun_eq_iff)
qed

lemma cache_last_wins:
  assumes "rejects env2 = rejects env1"
  shows "redis (snd (cache_apply env2 ev (snd (cache_apply env1 ev c))))
       = redis (snd (cache_apply env2 ev c))"
  using upsert_last_wins[OF assms] delete_twice[OF assms]
  by (simp add: cache_apply_def Let_def)

text \<open>
  What one application stores, the clock readings apart, depends only on which commands
  the downstream rejects.
\<close>

lemma upsert_timeless:
  assumes "rejects env2 = rejects env1"
  shows "data (redis (snd (cache_handleCreateOrUpdate env2 ev c)))
           = data (redis (snd (cache_handleCreateOrUpdate env1 ev c)))
     \<and> dom (expiry (redis (snd (cache_handleCreateOrUpdate env2 ev c))))
           = dom (expiry (redis (snd (cache_handleCreateOrUpdate env1 ev c))))
     \<and> members (redis (snd (cache_handleCreateOrUpdate env2 ev c)))
           = members (redis (snd (cache_handleCreateOrUpdate env1 ev c)))"
proof (cases "after (payload ev)")
  case None
  then show ?thesis by (simp add: cache_handleCreateOrUpdate_def)
next
  case (Some p)
  show ?thesis
    using assms Some
    by (cases "rejects env1 SETEX"; cases "rejects env1 ZADD"; cases "rejects env1 EXPIRE")
       (simp_all add: cache_handler_defs redis_client_defs invoke_Some invoke_None
          redis_mock_defs Let_def fun_eq_iff members_def)
qed

lemma delete_timeless:
  assumes "rejects env2 = rejects env1"
  shows "redis (snd (cache_handleDelete env2 ev c)) = redis (snd (cache_handleDelete env1 ev c))"
proof (cases "before (payload ev)")
  case None
  then show ?thesis by (simp add: cache_handleDelete_def)
next
  case (Some p)
  show ?thesis
    using assms Some
    by (cases "rejects env1 DEL"; cases "rejects env1 ZREM")
       (simp_all add: cache_handler_defs redis_client_defs invoke_Some invoke_None Let_def)
qed

lemma cache_timeless:
  assumes "rejects env2 = rejects env1"
  shows "data (redis (snd (cache_apply env2 ev c))) = data (redis (snd (cache_apply env1 ev c)))
     \<and> dom (expiry (redis (snd (cache_apply env2 ev c))))
           = dom (expiry (redis (snd (cache_apply env1 ev c))))
     \<and> members (redis (snd (cache_apply env2 ev c)))
           = members (redis (snd (cache_apply env1 ev c)))"
  using upsert_timeless[OF assms] delete_timeless[OF assms]
  by (simp add: cache_apply_def Let_def)

lemma search_idem:
  "es (snd (search_apply env ev (snd (search_apply env ev c)))) = es (snd (search_apply env ev c))"
proof -
  have u: "es (snd (search_handleCreateOrUpdate env ev (snd (search_handleCreateOrUpdate env ev c))))
      = es (snd (search_handleCreateOrUpdate env ev c))"
    by (cases "after (payload ev)"; cases "index_rejects env"; cases "documents (es c) ''posts''")
       (simp_all add: search_defs Let_def)
  have d: "es (snd (search_handleDelete env ev (snd (search_handleDelete env ev c))))
      = es (snd (search_handleDelete env ev c))"
  proof (cases "before (payload ev)")
    case None
    then show ?thesis by (simp add: search_defs)
  next
    case (Some p)
    then show ?thesis
      by (cases "delete_rejects env"; cases "documents (es c) ''posts''")
         (simp_all add: search_defs Let_def)
  qed
  show ?thesis using u d by (simp add: search_apply_def Let_def)
qed

text \<open>The author's set after a create and after a delete that the downstream accepts.\<close>

lemma members_create:
  assumes "op (payload ev) = ''c''" and "after (payload ev) = Some p"
    and "rejects env = (\<lambda>command. None)"
  shows "members (redis (snd (cache_apply env ev c))) (''author:'' @ author p @ '':posts'')
       = insert (toString (post_id p)) (members (redis c) (''author:'' @ author p @ '':posts''))"
  using assms
  by (cases "sortedSets (redis c) (''author:'' @ author p @ '':posts'')")
     (simp_all add: cache_apply_def cache_handler_defs redis_client_defs invoke_None
       redis_mock_defs members_def Let_def)

lemma members_delete:
  assumes "op (payload ev) = ''d''" and "before (payload ev) = Some q"
    and "rejects env = (\<lambda>command. None)"
  shows "members (redis (snd (cache_apply env ev c))) (''author:'' @ author q @ '':posts'')
       = members (redis c) (''author:'' @ author q @ '':posts'') - {toString (post_id q)}"
  using assms
  by (cases "sortedSets (redis c) (''author:'' @ author q @ '':posts'')")
     (auto simp add: cache_apply_def cache_handler_defs redis_client_defs invoke_None
       redis_mock_defs members_def Let_def)

lemma cache_run_append: "cache_run (xs @ ys) c = cache_run ys (cache_run xs c)"
  by (induction xs arbitrary: c) auto

lemma members_creates:
  assumes "list_all2 (\<lambda>(env, ev) p. rejects env = (\<lambda>command. None) \<and> op (payload ev) = ''c''
              \<and> after (payload ev) = Some p \<and> author p = a) recs ps"
  shows "members (redis (cache_run recs c)) (''author:'' @ a @ '':posts'')
       = members (redis c) (''author:'' @ a @ '':posts'') \<union> toString ` post_id ` set ps"
  using assms
proof (induction recs ps arbitrary: c rule: list_all2_induct)
  case Nil
  then show ?case by simp
next
  case (Cons r rs p ps)
  obtain env ev where r: "r = (env, ev)" by (cases r)
  from Cons.hyps(1) r have h: "rejects env = (\<lambda>command. None)" "op (payload ev) = ''c''"
    "after (payload ev) = Some p" "author p = a" by simp_all
  have "members (redis (snd (cache_apply env ev c))) (''author:'' @ a @ '':posts'')
       = insert (toString (post_id p)) (members (redis c) (''author:'' @ a @ '':posts''))"
    using members_create[OF h(2,3,1), of c] h(4) by simp
  then show ?case using Cons.IH[of "snd (cache_apply env ev c)"] r by simp
qed

lemma post1_sel: "post_id post1 = 1" "author post1 = ''C''"
  by (simp_all add: post1_def)

section \<open>Deleting what is not there\<close>

text \<open>
  C4. A delete record whose row is absent from the downstream is applied with success and
  leaves the downstream as it was, whatever the downstream accepts or rejects. For the
  search projection absent means that index "posts" holds no document under the id. For
  the cache projection it means that nothing is kept under the row's key (no value, no
  expiry, no set) and that the id is not a member of the author's set.
\<close>

theorem delete_absent_is_success:
  assumes "op (payload ev) = ''d''"
    and "before (payload ev) = Some p"
    and "case documents (es sc) ''posts'' of None \<Rightarrow> True
         | Some indexDocs \<Rightarrow> indexDocs (toString (post_id p)) = None"
    and "data (redis cc) (''post:'' @ toString (post_id p)) = None"
    and "expiry (redis cc) (''post:'' @ toString (post_id p)) = None"
    and "sortedSets (redis cc) (''post:'' @ toString (post_id p)) = None"
    and "toString (post_id p) \<notin> members (redis cc) (''author:'' @ author p @ '':posts'')"
  shows "fst (search_apply senv ev sc) = Inr () \<and> es (snd (search_apply senv ev sc)) = es sc
       \<and> fst (cache_apply cenv ev cc) = Inr () \<and> redis (snd (cache_apply cenv ev cc)) = redis cc"
proof -
  have s: "fst (search_apply senv ev sc) = Inr () \<and> es (snd (search_apply senv ev sc)) = es sc"
    using assms(1,2,3)
    by (cases "delete_rejects senv"; cases "documents (es sc) ''posts''")
       (simp_all add: search_apply_def search_defs Let_def)
  have c1: "fst (cache_apply cenv ev cc) = Inr ()"
    using assms(1,2)
    by (cases "rejects cenv DEL"; cases "rejects cenv ZREM")
       (simp_all add: cache_apply_def cache_handler_defs redis_client_defs
          invoke_Some invoke_None Let_def)
  have c2: "redis (snd (cache_apply cenv ev cc)) = redis cc"
    using assms(1,2,4,5,6,7)
    by (cases "rejects cenv DEL"; cases "rejects cenv ZREM";
        cases "sortedSets (redis cc) (''author:'' @ author p @ '':posts'')")
       (simp_all add: cache_apply_def cache_handler_defs redis_client_defs
          invoke_Some invoke_None redis_mock_defs members_def Let_def fun_upd_idem domIff)
  from s c1 c2 show ?thesis by simp
qed

theorem delete_absent_is_success_witness:
  "fst (search_apply es_up (createMockDebeziumEvent ''d'' (Some post1) None)
          createMockElasticsearch) = Inr ()
   \<and> es (snd (search_apply es_up (createMockDebeziumEvent ''d'' (Some post1) None)
          createMockElasticsearch)) = es createMockElasticsearch
   \<and> fst (cache_apply (redis_up 5) (createMockDebeziumEvent ''d'' (Some post1) None)
          createMockRedis) = Inr ()
   \<and> redis (snd (cache_apply (redis_up 5) (createMockDebeziumEvent ''d'' (Some post1) None)
          createMockRedis)) = redis createMockRedis"
  using delete_absent_is_success [of "createMockDebeziumEvent ''d'' (Some post1) None" post1
     createMockElasticsearch createMockRedis es_up "redis_up 5"]
  by (simp add: createMockDebeziumEvent_def createMockElasticsearch_def createMockRedis_def
      members_def)

section \<open>Replay\<close>

text \<open>
  C1, as the claim states it, fails on the cache projection: a set-with-ttl stores the
  deadline computed from the clock and the sorted set stores the clock as score, so a
  record applied at clock 0 and again at clock 1000 leaves another store than the record
  applied once at clock 0.
\<close>

theorem replay_changes_deadline_counterexample:
  "redis (snd (cache_apply (redis_up 1000) (createMockDebeziumEvent ''c'' None (Some post1))
            (snd (cache_apply (redis_up 0) (createMockDebeziumEvent ''c'' None (Some post1))
                    createMockRedis))))
   \<noteq> redis (snd (cache_apply (redis_up 0) (createMockDebeziumEvent ''c'' None (Some post1))
                    createMockRedis))"
proof -
  let ?ev = "createMockDebeziumEvent ''c'' None (Some post1)"
  let ?once = "snd (cache_apply (redis_up 0) ?ev createMockRedis)"
  let ?twice = "snd (cache_apply (redis_up 1000) ?ev ?once)"
  have 1: "expiry (redis ?once) ''post:1'' = Some 300000"
    by (simp add: cache_apply_def cache_handler_defs redis_client_defs invoke_None
        redis_mock_defs Let_def createMockDebeziumEvent_def redis_up_def createMockRedis_def
        toString_small post1_def CACHE_TTL_def)
  have 2: "expiry (redis ?twice) ''post:1'' = Some 301000"
    by (simp add: cache_apply_def cache_handler_defs redis_client_defs invoke_None
        redis_mock_defs Let_def createMockDebeziumEvent_def redis_up_def createMockRedis_def
        toString_small post1_def CACHE_TTL_def)
  show ?thesis
  proof
    assume "redis ?twice = redis ?once"
    then have "expiry (redis ?twice) ''post:1'' = expiry (redis ?once) ''post:1''" by simp
    with 1 2 show False by simp
  qed
qed

text \<open>
  C1, amended. Let a record be applied twice, the downstream rejecting the same commands
  both times. The search projection is left as one application leaves it. The cache
  projection is left as one application made at the second application's clock leaves it;
  compared with the first application alone, the cached values, the keys that carry an
  expiry and the members of every sorted set are the same, and only the deadlines and the
  scores follow the clock.
\<close>

theorem replay_converges:
  assumes "rejects cenv2 = rejects cenv1"
  shows "es (snd (search_apply senv ev (snd (search_apply senv ev sc))))
           = es (snd (search_apply senv ev sc))
    \<and> redis (snd (cache_apply cenv2 ev (snd (cache_apply cenv1 ev cc))))
           = redis (snd (cache_apply cenv2 ev cc))
    \<and> data (redis (snd (cache_apply cenv2 ev (snd (cache_apply cenv1 ev cc)))))
           = data (redis (snd (cache_apply cenv1 ev cc)))
    \<and> dom (expiry (redis (snd (cache_apply cenv2 ev (snd (cache_apply cenv1 ev cc))))))
           = dom (expiry (redis (snd (cache_apply cenv1 ev cc))))
    \<and> members (redis (snd (cache_apply cenv2 ev (snd (cache_apply cenv1 ev cc)))))
           = members (redis (snd (cache_apply cenv1 ev cc)))"
  using search_idem[of senv ev sc] cache_last_wins[OF assms, of ev cc]
    cache_timeless[OF assms, of ev cc]
  by simp

theorem replay_converges_witness:
  "es (snd (search_apply es_up (createMockDebeziumEvent ''c'' None (Some post1)) (snd (search_apply es_up (createMockDebeziumEvent ''c'' None (Some post1)) createMockElasticsearch))))
           = es (snd (search_apply es_up (createMockDebeziumEvent ''c'' None (Some post1)) createMockElasticsearch))
    \<and> redis (snd (cache_apply (redis_up 1000) (createMockDebeziumEvent ''c'' None (Some post1))
                (snd (cache_apply (redis_up 0) (createMockDebeziumEvent ''c'' None (Some post1)) createMockRedis))))
           = redis (snd (cache_apply (redis_up 1000) (createMockDebeziumEvent ''c'' None (Some post1)) createMockRedis))
    \<and> data (redis (snd (cache_apply (redis_up 1000) (createMockDebeziumEvent ''c'' None (Some post1))
                (snd (cache_apply (redis_up 0) (createMockDebeziumEvent ''c'' None (Some post1)) createMockRedis)))))
           = data (redis (snd (cache_apply (redis_up 0) (createMockDebeziumEvent ''c'' None (Some post1)) createMockRedis)))
    \<and> dom (expiry (redis (snd (cache_apply (redis_up 1000) (createMockDebeziumEvent ''c'' None (Some post1))
                (snd (cache_apply (redis_up 0) (createMockDebeziumEvent ''c'' None (Some post1)) createMockRedis))))))
           = dom (expiry (redis (snd (cache_apply (redis_up 0) (createMockDebeziumEvent ''c'' None (Some post1)) createMockRedis))))
    \<and> members (redis (snd (cache_apply (redis_up 1000) (createMockDebeziumEvent ''c'' None (Some post1))
                (snd (cache_apply (redis_up 0) (createMockDebeziumEvent ''c'' None (Some post1)) createMockRedis)))))
           = members (redis (snd (cache_apply (redis_up 0) (createMockDebeziumEvent ''c'' None (Some post1)) createMockRedis)))"
proof -
  have same: "rejects (redis_up 1000) = rejects (redis_up 0)"
    by (simp add: redis_up_def)
  show ?thesis by (rule replay_converges [OF same])
qed

section \<open>The author's list\<close>

text \<open>
  C7. Let N create records be applied in order, each carrying a row of author \<open>a\<close>, the
  ids of the rows all different, the downstream accepting every command, and the author's
  set empty at the start. Then the author's set holds exactly the N ids. When a delete
  record for one of these ids and the same author is applied next, the set holds exactly
  the other N - 1 ids.
\<close>

theorem group_index_consistency:
  assumes "list_all2 (\<lambda>(env, ev) p. rejects env = (\<lambda>command. None) \<and> op (payload ev) = ''c''
              \<and> after (payload ev) = Some p \<and> author p = a) recs ps"
    and "distinct (map post_id ps)"
    and "members (redis c) (''author:'' @ a @ '':posts'') = {}"
    and "rejects denv = (\<lambda>command. None)"
    and "op (payload dev) = ''d''"
    and "before (payload dev) = Some q"
    and "author q = a"
    and "post_id q \<in> post_id ` set ps"
  shows "members (redis (cache_run recs c)) (''author:'' @ a @ '':posts'')
          = toString ` post_id ` set ps
     \<and> card (members (redis (cache_run recs c)) (''author:'' @ a @ '':posts'')) = length recs
     \<and> members (redis (cache_run (recs @ [(denv, dev)]) c)) (''author:'' @ a @ '':posts'')
          = toString ` (post_id ` set ps - {post_id q})
     \<and> card (members (redis (cache_run (recs @ [(denv, dev)]) c)) (''author:'' @ a @ '':posts''))
          = length recs - 1"
proof -
  let ?key = "''author:'' @ a @ '':posts''"
  let ?ids = "post_id ` set ps"
  have inj: "inj_on toString A" for A
    by (rule inj_onI) (rule toString_inj)
  have len: "length recs = length ps"
    using assms(1) by (rule list_all2_lengthD)
  have cardids: "card ?ids = length ps"
    using distinct_card[OF assms(2)] by simp
  have m1: "members (redis (cache_run recs c)) ?key = toString ` ?ids"
    using members_creates[OF assms(1), of c] assms(3) by simp
  have c1: "card (toString ` ?ids) = length recs"
    using card_image[OF inj, of ?ids] cardids len by simp
  have run: "cache_run (recs @ [(denv, dev)]) c = snd (cache_apply denv dev (cache_run recs c))"
    by (simp add: cache_run_append)
  have m2: "members (redis (cache_run (recs @ [(denv, dev)]) c)) ?key
      = toString ` ?ids - {toString (post_id q)}"
    unfolding run
    using members_delete[OF assms(5,6,4), of "cache_run recs c"] assms(7) m1 by simp
  have img: "toString ` ?ids - {toString (post_id q)} = toString ` (?ids - {post_id q})"
    using toString_inj by auto
  have c2: "card (toString ` (?ids - {post_id q})) = length recs - 1"
    using card_image[OF inj, of "?ids - {post_id q}"] cardids len assms(8) by simp
  show ?thesis using m1 c1 m2 img c2 by simp
qed

theorem group_index_consistency_witness:
  "members (redis (cache_run
       [(redis_up 10, createMockDebeziumEvent ''c'' None (Some post1)),
        (redis_up 20, createMockDebeziumEvent ''c'' None (Some post2))] createMockRedis))
       ''author:C:posts'' = {''1'', ''2''}
   \<and> card (members (redis (cache_run
       [(redis_up 10, createMockDebeziumEvent ''c'' None (Some post1)),
        (redis_up 20, createMockDebeziumEvent ''c'' None (Some post2))] createMockRedis))
       ''author:C:posts'') = 2
   \<and> members (redis (cache_run
       [(redis_up 10, createMockDebeziumEvent ''c'' None (Some post1)),
        (redis_up 20, createMockDebeziumEvent ''c'' None (Some post2)),
        (redis_up 30, createMockDebeziumEvent ''d'' (Some post1) None)] createMockRedis))
       ''author:C:posts'' = {''2''}
   \<and> card (members (redis (cache_run
       [(redis_up 10, createMockDebeziumEvent ''c'' None (Some post1)),
        (redis_up 20, createMockDebeziumEvent ''c'' None (Some post2)),
        (redis_up 30, createMockDebeziumEvent ''d'' (Some post1) None)] createMockRedis))
       ''author:C:posts'') = 1"
proof -
  have h1: "list_all2 (\<lambda>(env, ev) p. rejects env = (\<lambda>command. None) \<and> op (payload ev) = ''c''
              \<and> after (payload ev) = Some p \<and> author p = ''C'')
        [(redis_up 10, createMockDebeziumEvent ''c'' None (Some post1)),
         (redis_up 20, createMockDebeziumEvent ''c'' None (Some post2))] [post1, post2]"
    by (simp add: redis_up_def createMockDebeziumEvent_def post1_def post2_def)
  have h2: "distinct (map post_id [post1, post2])"
    by (simp add: post1_def post2_def)
  have h3: "members (redis createMockRedis) (''author:'' @ ''C'' @ '':posts'') = {}"
    by (simp add: members_def createMockRedis_def)
  have h4: "rejects (redis_up 30) = (\<lambda>command. None)" by (simp add: redis_up_def)
  have h5: "op (payload (createMockDebeziumEvent ''d'' (Some post1) None)) = ''d''"
    by (simp add: createMockDebeziumEvent_def)
  have h6: "before (payload (createMockDebeziumEvent ''d'' (Some post1) None)) = Some post1"
    by (simp add: createMockDebeziumEvent_def)
  have h7: "author post1 = ''C''" by (simp add: post1_def)
  have h8: "post_id post1 \<in> post_id ` set [post1, post2]" by simp
  have s: "toString ` (post_id ` set [post1, post2] - {post_id post1}) = {''2''}"
    "toString ` post_id ` set [post1, post2] = {''1'', ''2''}"
    by (auto simp add: post1_def post2_def toString_small)
  show ?thesis
    using group_index_consistency [OF h1 h2 h3 h4 h5 h6 h7 h8] s
    by simp
qed

section \<open>What an upsert writes to the cache\<close>

text \<open>
  C8, as the claim states it, fails on the names of the keys: after the upsert of row 1 of
  author C into a fresh cache nothing is stored under "row:1" and there is no set
  "group:C:rows"; the row is under "post:1" and the id in the set "author:C:posts".
\<close>

theorem cache_keys_counterexample:
  "data (redis (snd (cache_apply (redis_up 1000) (createMockDebeziumEvent ''c'' None (Some post1)) createMockRedis))) ''row:1'' = None
   \<and> sortedSets (redis (snd (cache_apply (redis_up 1000) (createMockDebeziumEvent ''c'' None (Some post1)) createMockRedis)))
        ''group:C:rows'' = None
   \<and> data (redis (snd (cache_apply (redis_up 1000) (createMockDebeziumEvent ''c'' None (Some post1)) createMockRedis))) ''post:1''
        = Some (JSON_stringify post1)
   \<and> members (redis (snd (cache_apply (redis_up 1000) (createMockDebeziumEvent ''c'' None (Some post1)) createMockRedis)))
        ''author:C:posts'' = {''1''}"
  by (simp add: cache_apply_def cache_handler_defs redis_client_defs invoke_None
      redis_mock_defs Let_def createMockDebeziumEvent_def redis_up_def createMockRedis_def
      members_def toString_small post1_def)

text \<open>
  C8, amended. For every create, snapshot or update record with a row, when the downstream
  accepts the commands, the cache updater makes three calls: set-with-ttl of key
  "post:{id}" with 300 seconds and the JSON text of the row's six fields, an add of the id
  to the sorted set "author:{author}:posts" with the clock as score, and an expire of that
  set with 300 seconds. Afterwards the row's key holds the JSON text and expires 300000
  ms after the clock of the set-with-ttl, the id is a member of the author's set with the
  clock of the add as score, and the set expires 300000 ms after the clock of the expire.
\<close>

theorem cache_upsert_writes:
  assumes "op (payload ev) \<in> {''c'', ''r'', ''u''}"
    and "after (payload ev) = Some p"
    and "rejects env = (\<lambda>command. None)"
  shows "calls (snd (cache_apply env ev c)) = calls c @
          [SetexCall (''post:'' @ toString (post_id p)) 300 (JSON_stringify p),
           ZaddCall (''author:'' @ author p @ '':posts'') (clock env ZADD) (toString (post_id p)),
           ExpireCall (''author:'' @ author p @ '':posts'') 300]
    \<and> data (redis (snd (cache_apply env ev c))) (''post:'' @ toString (post_id p))
        = Some (JSON_stringify p)
    \<and> expiry (redis (snd (cache_apply env ev c))) (''post:'' @ toString (post_id p))
        = Some (clock env SETEX + 300 * 1000)
    \<and> (case sortedSets (redis (snd (cache_apply env ev c))) (''author:'' @ author p @ '':posts'')
        of None \<Rightarrow> None | Some s \<Rightarrow> s (toString (post_id p))) = Some (clock env ZADD)
    \<and> members (redis (snd (cache_apply env ev c))) (''author:'' @ author p @ '':posts'')
        = insert (toString (post_id p)) (members (redis c) (''author:'' @ author p @ '':posts''))
    \<and> expiry (redis (snd (cache_apply env ev c))) (''author:'' @ author p @ '':posts'')
        = Some (clock env EXPIRE + 300 * 1000)"
proof -
  have a: "cache_apply env ev c = cache_handleCreateOrUpdate env ev c"
    using assms(1) by (auto simp add: cache_apply_def)
  show ?thesis
    unfolding a upsert_accepted[OF assms(2,3)]
    by (cases "sortedSets (redis c) (''author:'' @ author p @ '':posts'')")
       (simp_all add: redis_mock_defs members_def Let_def)
qed

theorem cache_upsert_writes_witness:
  "calls (snd (cache_apply (redis_up 1000) (createMockDebeziumEvent ''c'' None (Some post1)) createMockRedis)) =
          [SetexCall ''post:1'' 300
            (''{'' @ CHR 0x22 # ''id'' @ CHR 0x22 # '':1,'' @ CHR 0x22 # ''title'' @
            CHR 0x22 # '':'' @ CHR 0x22 # ''A'' @ CHR 0x22 # '','' @ CHR 0x22 # ''content'' @
            CHR 0x22 # '':'' @ CHR 0x22 # ''B'' @ CHR 0x22 # '','' @ CHR 0x22 # ''author'' @
            CHR 0x22 # '':'' @ CHR 0x22 # ''C'' @ CHR 0x22 # '','' @ CHR 0x22 # ''created_at'' @
            CHR 0x22 # '':'' @ CHR 0x22 # ''2024-01-01T00:00:00.000Z'' @ CHR 0x22 # '','' @
            CHR 0x22 # ''updated_at'' @ CHR 0x22 # '':'' @
            CHR 0x22 # ''2024-01-01T00:00:00.000Z'' @ CHR 0x22 # ''}''),
           ZaddCall ''author:C:posts'' 1000 ''1'',
           ExpireCall ''author:C:posts'' 300]
    \<and> data (redis (snd (cache_apply (redis_up 1000) (createMockDebeziumEvent ''c'' None (Some post1)) createMockRedis))) ''post:1''
        = Some (''{'' @ CHR 0x22 # ''id'' @ CHR 0x22 # '':1,'' @ CHR 0x22 # ''title'' @
            CHR 0x22 # '':'' @ CHR 0x22 # ''A'' @ CHR 0x22 # '','' @ CHR 0x22 # ''content'' @
            CHR 0x22 # '':'' @ CHR 0x22 # ''B'' @ CHR 0x22 # '','' @ CHR 0x22 # ''author'' @
            CHR 0x22 # '':'' @ CHR 0x22 # ''C'' @ CHR 0x22 # '','' @ CHR 0x22 # ''created_at'' @
            CHR 0x22 # '':'' @ CHR 0x22 # ''2024-01-01T00:00:00.000Z'' @ CHR 0x22 # '','' @
            CHR 0x22 # ''updated_at'' @ CHR 0x22 # '':'' @
            CHR 0x22 # ''2024-01-01T00:00:00.000Z'' @ CHR 0x22 # ''}'')
    \<and> expiry (redis (snd (cache_apply (redis_up 1000) (createMockDebeziumEvent ''c'' None (Some post1)) createMockRedis))) ''post:1''
        = Some 301000
    \<and> members (redis (snd (cache_apply (redis_up 1000) (createMockDebeziumEvent ''c'' None (Some post1)) createMockRedis)))
        ''author:C:posts'' = {''1''}
    \<and> expiry (redis (snd (cache_apply (redis_up 1000) (createMockDebeziumEvent ''c'' None (Some post1)) createMockRedis)))
        ''author:C:posts'' = Some 301000"
  using cache_upsert_writes [of "createMockDebeziumEvent ''c'' None (Some post1)" post1 "redis_up 1000" createMockRedis]
  by (simp add: createMockDebeziumEvent_def redis_up_def createMockRedis_def members_def
      toString_small post1_sel JSON_stringify_post1)

section \<open>A downstream that rejects the write\<close>

text \<open>
  C2. The consumers' handlers catch what the client throws and log it, so an apply returns
  normally whatever the downstream rejects; with the write refused, the call is made and
  the record then counts as processed. The handlers as the unit tests hold them return the
  error on the same input, which is what the claim and the tests "should handle Redis
  connection errors" and "should handle Elasticsearch index errors gracefully" ask for.
\<close>

theorem rejected_write_is_swallowed:
  "fst (cache_apply cenv ev cc) = Inr () \<and> fst (search_apply senv ev sc) = Inr ()
   \<and> cache_apply redis_refused (createMockDebeziumEvent ''c'' None (Some post1)) createMockRedis
       = (Inr (), createMockRedis\<lparr>calls := [SetexCall ''post:1'' 300 (JSON_stringify post1)]\<rparr>)
   \<and> search_apply es_refused (createMockDebeziumEvent ''c'' None (Some post1)) createMockElasticsearch
       = (Inr (), createMockElasticsearch\<lparr>es_calls := [IndexCall ''posts'' ''1'' post1]\<rparr>)
   \<and> fst (test_cache_handleCreateOrUpdate redis_refused (createMockDebeziumEvent ''c'' None (Some post1)) createMockRedis)
       = Inl (Error ''Connection refused'' None)
   \<and> fst (test_search_handleCreateOrUpdate es_refused (createMockDebeziumEvent ''c'' None (Some post1)) createMockElasticsearch)
       = Inl (Error ''Network error'' None)"
proof -
  have u: "fst (cache_handleCreateOrUpdate cenv ev cc) = Inr ()"
    by (cases "after (payload ev)"; cases "rejects cenv SETEX"; cases "rejects cenv ZADD";
        cases "rejects cenv EXPIRE")
       (simp_all add: cache_handler_defs redis_client_defs invoke_Some invoke_None Let_def)
  have d: "fst (cache_handleDelete cenv ev cc) = Inr ()"
    by (cases "before (payload ev)"; cases "rejects cenv DEL"; cases "rejects cenv ZREM")
       (simp_all add: cache_handler_defs redis_client_defs invoke_Some invoke_None Let_def)
  have 1: "fst (cache_apply cenv ev cc) = Inr ()"
    using u d by (simp add: cache_apply_def Let_def)
  have 2: "fst (search_apply senv ev sc) = Inr ()"
    by (simp add: search_apply_def search_handleCreateOrUpdate_def search_handleDelete_def
        Let_def split: option.splits prod.splits sum.splits)
  have 3: "cache_apply redis_refused (createMockDebeziumEvent ''c'' None (Some post1)) createMockRedis
       = (Inr (), createMockRedis\<lparr>calls := [SetexCall ''post:1'' 300 (JSON_stringify post1)]\<rparr>)"
    by (simp add: cache_apply_def cache_handler_defs redis_client_defs invoke_Some
        redis_refused_def createMockDebeziumEvent_def createMockRedis_def post1_def
        toString_small CACHE_TTL_def Let_def)
  have 4: "search_apply es_refused (createMockDebeziumEvent ''c'' None (Some post1)) createMockElasticsearch
       = (Inr (), createMockElasticsearch\<lparr>es_calls := [IndexCall ''posts'' ''1'' post1]\<rparr>)"
    by (simp add: search_apply_def search_defs es_refused_def createMockDebeziumEvent_def
        createMockElasticsearch_def post1_def toString_small Let_def)
  have 5: "fst (test_cache_handleCreateOrUpdate redis_refused (createMockDebeziumEvent ''c'' None (Some post1)) createMockRedis)
       = Inl (Error ''Connection refused'' None)"
    by (simp add: test_cache_handleCreateOrUpdate_def redis_client_defs invoke_Some
        redis_refused_def createMockDebeziumEvent_def Let_def)
  have 6: "fst (test_search_handleCreateOrUpdate es_refused (createMockDebeziumEvent ''c'' None (Some post1)) createMockElasticsearch)
       = Inl (Error ''Network error'' None)"
    by (simp add: test_search_handleCreateOrUpdate_def search_defs es_refused_def
        createMockDebeziumEvent_def post1_def Let_def)
  from 1 2 3 4 5 6 show ?thesis by simp
qed

section \<open>Rows with an empty required field\<close>

text \<open>
  C5. The search indexer's handler has no check of the required fields: a create record
  whose row has the empty title is sent to the index and stored. The handler as the unit
  test holds it skips the same record without a call, which is what the claim and the test
  "should skip event with missing required fields" ask for.
\<close>

theorem incomplete_row_is_indexed:
  "fst (search_apply es_up (createMockDebeziumEvent ''c'' None (Some untitled)) createMockElasticsearch) = Inr ()
   \<and> es_calls (snd (search_apply es_up (createMockDebeziumEvent ''c'' None (Some untitled)) createMockElasticsearch))
       = [IndexCall ''posts'' ''7'' untitled]
   \<and> (case documents (es (snd (search_apply es_up (createMockDebeziumEvent ''c'' None (Some untitled)) createMockElasticsearch))) ''posts''
       of None \<Rightarrow> None | Some indexDocs \<Rightarrow> indexDocs ''7'') = Some untitled
   \<and> test_search_handleCreateOrUpdate es_up (createMockDebeziumEvent ''c'' None (Some untitled)) createMockElasticsearch
       = (Inr (), createMockElasticsearch)"
  by (simp add: search_apply_def search_defs test_search_handleCreateOrUpdate_def
      es_up_def createMockDebeziumEvent_def createMockElasticsearch_def untitled_def Let_def
      toString_small)

section \<open>Decoding a message\<close>

text \<open>
  C9, as the claim states it, fails on an unknown operation code: a record with operation
  "x" raises nothing, in the switch or in \<open>eachMessage\<close>; it is passed over with no call to
  the downstream.
\<close>

theorem unknown_operation_counterexample:
  "cache_apply (redis_up 0) (createMockDebeziumEvent ''x'' None (Some post1)) createMockRedis = (Inr (), createMockRedis)
   \<and> search_apply es_up (createMockDebeziumEvent ''x'' None (Some post1)) createMockElasticsearch = (Inr (), createMockElasticsearch)
   \<and> cache_eachMessage (\<lambda>text. Inr (createMockDebeziumEvent ''x'' None (Some post1))) (redis_up 0) (Some ''{}'') createMockRedis
       = (Inr (), createMockRedis)
   \<and> search_eachMessage (\<lambda>text. Inr (createMockDebeziumEvent ''x'' None (Some post1))) es_up (Some ''{}'') createMockElasticsearch
       = (Inr (), createMockElasticsearch)"
  by (simp add: cache_apply_def search_apply_def cache_eachMessage_def search_eachMessage_def
      createMockDebeziumEvent_def)

text \<open>
  C9, amended. A message is decoded by \<open>JSON.parse\<close> inside \<open>eachMessage\<close>, which never
  raises to its caller: when the parser throws, the message is dropped there, with no call
  to the downstream; and a decoded record whose operation code is none of "c", "r", "u",
  "d" is not an error: it is applied with success and no call to the downstream.
\<close>

theorem undecodable_or_unknown_is_dropped:
  "fst (search_eachMessage JSON_parse senv v sc) = Inr ()
   \<and> fst (cache_eachMessage JSON_parse cenv v cc) = Inr ()
   \<and> (JSON_parse text = Inl e \<longrightarrow>
        search_eachMessage JSON_parse senv (Some text) sc = (Inr (), sc)
        \<and> cache_eachMessage JSON_parse cenv (Some text) cc = (Inr (), cc))
   \<and> (op (payload ev) \<notin> {''c'', ''r'', ''u'', ''d''} \<longrightarrow>
        search_apply senv ev sc = (Inr (), sc) \<and> cache_apply cenv ev cc = (Inr (), cc))"
  by (auto simp add: search_eachMessage_def cache_eachMessage_def search_apply_def
      cache_apply_def split: option.splits sum.splits prod.splits)

theorem undecodable_or_unknown_is_dropped_witness:
  "search_eachMessage (\<lambda>text. Inl (Error ''Unexpected token'' None)) es_up (Some ''{'')
      createMockElasticsearch = (Inr (), createMockElasticsearch)
   \<and> cache_eachMessage (\<lambda>text. Inl (Error ''Unexpected token'' None)) (redis_up 0) (Some ''{'')
      createMockRedis = (Inr (), createMockRedis)
   \<and> search_apply es_up (createMockDebeziumEvent ''x'' None (Some post1)) createMockElasticsearch = (Inr (), createMockElasticsearch)
   \<and> cache_apply (redis_up 0) (createMockDebeziumEvent ''x'' None (Some post1)) createMockRedis = (Inr (), createMockRedis)"
  using undecodable_or_unknown_is_dropped
    [of "\<lambda>text. Inl (Error ''Unexpected token'' None)" es_up "Some ''{''"
      createMockElasticsearch "redis_up 0" createMockRedis "''{''"
      "Error ''Unexpected token'' None" "createMockDebeziumEvent ''x'' None (Some post1)"]
  by (simp add: createMockDebeziumEvent_def)

end
